theory Spec2Isabelle
  imports Complex_Main
begin

section \<open>GPX split statistics: the model of \<open>split_calculator.py\<close>\<close>

text \<open>
  The two functions of \<open>src/split_calculator.py\<close>, \<open>prepare_gpx_dataframe\<close> and
  \<open>compute_splits\<close>, as HOL functions.

  Numbers. Python floats are modelled as exact rationals: a literal denotes its decimal
  value (\<open>13.1\<close> is \<open>131/10\<close>, \<open>1609.34\<close> is \<open>160934/100\<close>), arithmetic is exact, and
  \<open>round(x, 2)\<close> rounds the exact value to the nearest multiple of \<open>1/100\<close>, ties to even.
  The rounding error of binary floating point is outside this model. The values that only
  a float has (\<open>inf\<close>, \<open>-inf\<close>, \<open>nan\<close>), which the pace column gets from a division by zero,
  are modelled by the type \<open>fval\<close>.

  Exceptions are values of the type \<open>error\<close>; a function that can raise returns
  \<open>error + 'a\<close>, with \<open>Inl\<close> for the exception.
\<close>

subsection \<open>Exceptions\<close>

text \<open>
  The source raises \<open>ValueError\<close> itself at two places (invalid unit, step not allowed).
  Every other exception comes out of a library call: \<open>KeyError\<close> for a column that a
  frame does not have, \<open>IndexError\<close> for \<open>.iloc[-1]\<close> on an empty column,
  \<open>OverflowError\<close> and \<open>ValueError\<close> from \<open>int(inf)\<close> and \<open>int(nan)\<close>,
  \<open>OverflowError\<close> from a \<open>timedelta\<close> out of range.
\<close>

datatype value_error = InvalidUnit | StepNotAllowed | NaNToInteger

datatype error = ValueError value_error | KeyError string | IndexError | OverflowError

text \<open>The exceptions of the two \<open>raise\<close> statements of \<open>compute_splits\<close>.\<close>

definition config_error :: "error \<Rightarrow> bool" where
  "config_error e = (e = ValueError InvalidUnit \<or> e = ValueError StepNotAllowed)"

subsection \<open>The module constants\<close>

definition ALLOWED_STEPS :: "(string \<times> rat list) list" where
  "ALLOWED_STEPS =
     [(''meters'', [100, 200, 400, 600, 800, 1000, 1200, 1600, 2000, 3200, 5000, 10000]),
      (''km'', [1, 2, 5, 10, 20]),
      (''mi'', [1/4, 1/2, 1, 2, 3, 4, 5, 10, 131/10])]"

definition UNIT_CONVERSIONS :: "(string \<times> rat) list" where
  "UNIT_CONVERSIONS = [(''meters'', 1), (''km'', 1000), (''mi'', 160934/100)]"

subsection \<open>Rounding to two decimals\<close>

definition round_half_even :: "rat \<Rightarrow> int" where
  "round_half_even y =
     (let f = \<lfloor>y\<rfloor>; d = y - of_int f
      in if d < 1/2 then f else if 1/2 < d then f + 1 else if even f then f else f + 1)"

definition round2 :: "rat \<Rightarrow> rat" where
  "round2 x = of_int (round_half_even (x * 100)) / 100"

subsection \<open>Float values and the two time formats\<close>

datatype fval = Fin rat | PInf | NInf | NaN

text \<open>
  Division of two float columns: pandas does not raise on a zero divisor, the quotient is
  \<open>inf\<close>, \<open>-inf\<close> or \<open>nan\<close>. (The divisors of the source are differences and rounded
  values of finite numbers; a negative zero is not modelled.)
\<close>

definition pd_div :: "rat \<Rightarrow> rat \<Rightarrow> fval" where
  "pd_div a b =
     (if b \<noteq> 0 then Fin (a / b)
      else if 0 < a then PInf else if a < 0 then NInf else NaN)"

fun fround2 :: "fval \<Rightarrow> fval" where
  "fround2 (Fin x) = Fin (round2 x)"
| "fround2 v = v"

text \<open>\<open>x < 3600\<close> on a float.\<close>

fun lt_3600 :: "fval \<Rightarrow> bool" where
  "lt_3600 (Fin x) = (x < 3600)"
| "lt_3600 NInf = True"
| "lt_3600 PInf = False"
| "lt_3600 NaN = False"

text \<open>\<open>int(x)\<close>: truncation towards zero; it raises on \<open>inf\<close> and on \<open>nan\<close>.\<close>

fun py_int :: "fval \<Rightarrow> error + int" where
  "py_int (Fin x) = Inr (if 0 \<le> x then \<lfloor>x\<rfloor> else \<lceil>x\<rceil>)"
| "py_int PInf = Inl OverflowError"
| "py_int NInf = Inl OverflowError"
| "py_int NaN = Inl (ValueError NaNToInteger)"

fun str_nat :: "nat \<Rightarrow> string" where
  "str_nat n =
     (if n < 10 then [char_of (48 + n)]
      else str_nat (n div 10) @ [char_of (48 + n mod 10)])"

definition str_int :: "int \<Rightarrow> string" where
  "str_int i = (if i < 0 then CHR ''-'' # str_nat (nat (- i)) else str_nat (nat i))"

text \<open>\<open>"%02d"\<close> of a number that is not negative.\<close>

definition pad2 :: "nat \<Rightarrow> string" where
  "pad2 n = (if n < 10 then CHR ''0'' # str_nat n else str_nat n)"

text \<open>
  \<open>str(timedelta(seconds=n))\<close> for an integer \<open>n\<close>: the days are \<open>n // 86400\<close> (floor
  division, so negative for a negative \<open>n\<close>), printed only when not zero; a
  \<open>timedelta\<close> of more than 999999999 days in either direction raises \<open>OverflowError\<close>.
\<close>

definition timedelta_str :: "int \<Rightarrow> error + string" where
  "timedelta_str n =
     (let days = n div 86400;
          s = nat (n mod 86400);
          mm = s div 60; ss = s mod 60;
          hh = mm div 60; mm' = mm mod 60;
          body = str_nat hh @ '':'' @ pad2 mm' @ '':'' @ pad2 ss
      in if 999999999 < \<bar>days\<bar> then Inl OverflowError
         else Inr (if days \<noteq> 0
                   then str_int days @ '' day'' @ (if \<bar>days\<bar> \<noteq> 1 then ''s'' else [])
                        @ '', '' @ body
                   else body))"

text \<open>
  The lambda of the two \<open>..._mmss\<close> columns:
  \<open>str(timedelta(seconds=int(x)))[2:] if x < 3600 else str(timedelta(seconds=int(x)))\<close>.
\<close>

definition mmss :: "fval \<Rightarrow> error + string" where
  "mmss x =
     (if lt_3600 x
      then (case py_int x of Inl e \<Rightarrow> Inl e
            | Inr n \<Rightarrow> (case timedelta_str n of Inl e \<Rightarrow> Inl e | Inr s \<Rightarrow> Inr (drop 2 s)))
      else (case py_int x of Inl e \<Rightarrow> Inl e | Inr n \<Rightarrow> timedelta_str n))"

definition rjust :: "nat \<Rightarrow> char \<Rightarrow> string \<Rightarrow> string" where
  "rjust w c s = replicate (w - length s) c @ s"

text \<open>
  The lambda of the two \<open>..._hhmmss\<close> columns:
  \<open>str(timedelta(seconds=int(x))).rjust(8, "0")\<close>.
\<close>

definition hhmmss :: "fval \<Rightarrow> error + string" where
  "hhmmss x =
     (case py_int x of Inl e \<Rightarrow> Inl e
      | Inr n \<Rightarrow> (case timedelta_str n of Inl e \<Rightarrow> Inl e
                  | Inr s \<Rightarrow> Inr (rjust 8 CHR ''0'' s)))"

text \<open>\<open>Series.apply\<close>: the function on every element in order, the first exception wins.\<close>

fun apply_column :: "('a \<Rightarrow> error + 'b) \<Rightarrow> 'a list \<Rightarrow> error + 'b list" where
  "apply_column f [] = Inr []"
| "apply_column f (x # xs) =
     (case f x of Inl e \<Rightarrow> Inl e
      | Inr y \<Rightarrow> (case apply_column f xs of Inl e \<Rightarrow> Inl e | Inr ys \<Rightarrow> Inr (y # ys)))"

subsection \<open>The frame of the track\<close>

text \<open>
  One row of the frame that \<open>prepare_gpx_dataframe\<close> returns, and the frame: its rows and
  the column \<open>distance_unit\<close>, which a frame has only once \<open>compute_splits\<close> has written
  it. A GPX point may lack its elevation. Time stamps are seconds.
\<close>

record track_row =
  time :: rat
  latitude :: rat
  longitude :: rat
  elevation :: "rat option"
  segment_meters :: rat
  cumulative_meters :: rat
  elapsed_time :: rat

record dataframe =
  rows :: "track_row list"
  distance_unit :: "rat list option"

subsection \<open>\<open>bisect_left\<close>\<close>

text \<open>
  The binary search of Python's \<open>bisect\<close> module, as it runs on any list, sorted or not.
\<close>

function bisect_left_loop :: "rat list \<Rightarrow> rat \<Rightarrow> nat \<Rightarrow> nat \<Rightarrow> nat" where
  "bisect_left_loop a x lo hi =
     (if lo < hi
      then (let mid = (lo + hi) div 2
            in if a ! mid < x then bisect_left_loop a x (mid + 1) hi
               else bisect_left_loop a x lo mid)
      else lo)"
  by pat_completeness auto
termination
  by (relation "measure (\<lambda>(a, x, lo, hi). hi - lo)") auto

definition bisect_left :: "rat list \<Rightarrow> rat \<Rightarrow> nat" where
  "bisect_left a x = bisect_left_loop a x 0 (length a)"

subsection \<open>\<open>compute_splits\<close>\<close>

text \<open>
  The loop that creates the split markers (lines 123 to 127). Nothing in the loop bounds
  the number of its rounds: with a step that is not positive it would not end. So the
  model is a partial function, \<open>None\<close> for a loop that does not return.
\<close>

partial_function (option) create_split_markers ::
  "rat \<Rightarrow> rat \<Rightarrow> rat \<Rightarrow> rat list \<Rightarrow> rat list option" where
  "create_split_markers step max_unit_distance current split_markers =
     (if current < max_unit_distance
      then create_split_markers step max_unit_distance (current + step)
             (split_markers @ [round2 current])
      else Some split_markers)"

declare create_split_markers.simps [code]

text \<open>
  The loop over the markers (lines 131 to 139): \<open>du\<close> is the column \<open>distance_unit\<close>,
  \<open>el\<close> the column \<open>elapsed_time\<close>. A record is a pair of the marker and the elapsed
  time. The index that \<open>df.loc\<close> reads is below the length, by the test before it.
\<close>

fun marker_records :: "rat list \<Rightarrow> rat list \<Rightarrow> rat list \<Rightarrow> (rat \<times> rat) list" where
  "marker_records du el [] = []"
| "marker_records du el (marker # ms) =
     (let idx = bisect_left du marker
      in if idx = 0 \<or> length du \<le> idx then marker_records du el ms
         else (marker, el ! idx) # marker_records du el ms)"

text \<open>The list \<open>split_data\<close> as it is at line 151: the marker records, then the final one.\<close>

definition split_data :: "rat list \<Rightarrow> rat list \<Rightarrow> rat list \<Rightarrow> (rat \<times> rat) list" where
  "split_data du el split_markers =
     (let final_distance = round2 (last du);
          final_time = last el
      in marker_records du el split_markers @
         (if split_markers = [] \<or> last split_markers < final_distance
          then [(final_distance, final_time)] else []))"

text \<open>\<open>s.diff().fillna(s)\<close>: the first element, then the differences of neighbours.\<close>

fun diff_fillna :: "rat list \<Rightarrow> rat list" where
  "diff_fillna [] = []"
| "diff_fillna (x # xs) = x # map2 (\<lambda>b a. b - a) xs (x # xs)"

record split_row =
  unit_split :: rat
  elapsed_time_sec :: rat
  split_time_sec :: rat
  split_pace_mmss :: string
  split_pace_hhmmss :: string
  split_distance :: rat
  pace_seconds :: fval
  pace_mmss :: string
  pace_hhmmss :: string
  pace :: string

text \<open>
  Lines 151 to 188: the frame of the splits from the list of records. A frame made of
  no records has no columns, and reading \<open>elapsed_time_sec\<close> from it raises
  \<open>KeyError\<close>. The first split distance is the first marker, the others are the
  differences of neighbours, which is what \<open>diff_fillna\<close> computes.
\<close>

definition split_frame :: "(rat \<times> rat) list \<Rightarrow> error + split_row list" where
  "split_frame sd =
     (if sd = [] then Inl (KeyError ''elapsed_time_sec'')
      else
        let markers = map fst sd;
            elapsed = map snd sd;
            split_time = diff_fillna elapsed
        in case apply_column mmss (map Fin split_time) of Inl e \<Rightarrow> Inl e
           | Inr sp_mmss \<Rightarrow>
        (case apply_column hhmmss (map Fin split_time) of Inl e \<Rightarrow> Inl e
           | Inr sp_hhmmss \<Rightarrow>
        (let split_distances = diff_fillna markers;
             paces = map fround2 (map2 pd_div split_time split_distances)
         in case apply_column mmss paces of Inl e \<Rightarrow> Inl e
            | Inr p_mmss \<Rightarrow>
         (case apply_column hhmmss paces of Inl e \<Rightarrow> Inl e
            | Inr p_hhmmss \<Rightarrow>
              Inr (map (\<lambda>i. \<lparr>unit_split = markers ! i,
                              elapsed_time_sec = elapsed ! i,
                              split_time_sec = split_time ! i,
                              split_pace_mmss = sp_mmss ! i,
                              split_pace_hhmmss = sp_hhmmss ! i,
                              split_distance = split_distances ! i,
                              pace_seconds = paces ! i,
                              pace_mmss = p_mmss ! i,
                              pace_hhmmss = p_hhmmss ! i,
                              pace = p_mmss ! i\<rparr>)
                       [0..<length sd])))))"

text \<open>Line 119: the cumulative distances over the divisor of the unit.\<close>

definition converted_distances :: "rat \<Rightarrow> dataframe \<Rightarrow> rat list" where
  "converted_distances conv df = map (\<lambda>r. cumulative_meters r / conv) (rows df)"

text \<open>
  \<open>compute_splits\<close> writes the column \<open>distance_unit\<close> into the frame of its caller, so
  the model returns the frame as the call leaves it, together with the result. The outer
  \<open>option\<close> is \<open>None\<close> when the marker loop does not return.
\<close>

definition compute_splits ::
  "dataframe \<Rightarrow> string \<Rightarrow> rat \<Rightarrow> (dataframe \<times> (error + split_row list)) option" where
  "compute_splits df unit step =
     (case map_of ALLOWED_STEPS unit of
        None \<Rightarrow> Some (df, Inl (ValueError InvalidUnit))
      | Some allowed \<Rightarrow>
          if step \<notin> set allowed then Some (df, Inl (ValueError StepNotAllowed))
          else
            (case map_of UNIT_CONVERSIONS unit of
               None \<Rightarrow> Some (df, Inl (KeyError unit))
             | Some conv \<Rightarrow>
                 let du = converted_distances conv df;
                     df' = df\<lparr>distance_unit := Some du\<rparr>
                 in if du = [] then Some (df', Inl IndexError)
                    else
                      (case create_split_markers step (last du) step [] of
                         None \<Rightarrow> None
                       | Some split_markers \<Rightarrow>
                           Some (df', split_frame
                                   (split_data du (map elapsed_time (rows df)) split_markers)))))"

subsection \<open>\<open>prepare_gpx_dataframe\<close>\<close>

text \<open>
  What \<open>gpxpy.parse\<close> returns: tracks with a name, which may be missing, and segments
  of points. Reading and decoding the file is not part of the model.
\<close>

record gpx_point =
  pt_time :: rat
  pt_latitude :: rat
  pt_longitude :: rat
  pt_elevation :: "rat option"

record gpx_track =
  name :: "string option"
  segments :: "gpx_point list list"

text \<open>\<open>Series.cumsum\<close>.\<close>

fun cumsum_from :: "rat \<Rightarrow> rat list \<Rightarrow> rat list" where
  "cumsum_from acc [] = []"
| "cumsum_from acc (x # xs) = (acc + x) # cumsum_from (acc + x) xs"

text \<open>
  The geodesic distance of \<open>geopy\<close>, in meters, is a parameter. A frame made of no
  points has no columns, and reading its column \<open>time\<close> at line 59 raises \<open>KeyError\<close>.
  \<open>sort_values\<close> is modelled by a stable sort; pandas promises no order among equal
  time stamps.
\<close>

definition prepare_gpx_dataframe ::
  "(rat \<times> rat \<Rightarrow> rat \<times> rat \<Rightarrow> rat) \<Rightarrow> gpx_track list
     \<Rightarrow> error + (dataframe \<times> string option)" where
  "prepare_gpx_dataframe geodesic_meters tracks =
     (let title = fold (\<lambda>track title. name track) tracks (Some []);
          points = concat (map (\<lambda>track. concat (segments track)) tracks)
      in if points = [] then Inl (KeyError ''time'')
         else
           let pts = sort_key pt_time points;
               distances =
                 0 # map (\<lambda>i. geodesic_meters
                                  (pt_latitude (pts ! (i - 1)), pt_longitude (pts ! (i - 1)))
                                  (pt_latitude (pts ! i), pt_longitude (pts ! i)))
                       [1..<length pts];
               cumulative = cumsum_from 0 distances;
               t0 = pt_time (hd pts)
           in Inr (\<lparr>rows = map (\<lambda>i. \<lparr>time = pt_time (pts ! i),
                                          latitude = pt_latitude (pts ! i),
                                          longitude = pt_longitude (pts ! i),
                                          elevation = pt_elevation (pts ! i),
                                          segment_meters = distances ! i,
                                          cumulative_meters = cumulative ! i,
                                          elapsed_time = pt_time (pts ! i) - t0\<rparr>)
                                [0..<length pts],
                     distance_unit = None\<rparr>,
                   title))"

subsection \<open>Predicates of the statements\<close>

text \<open>The two tests at the head of \<open>compute_splits\<close> both pass.\<close>

definition valid_config :: "string \<Rightarrow> rat \<Rightarrow> bool" where
  "valid_config unit step =
     (case map_of ALLOWED_STEPS unit of None \<Rightarrow> False | Some allowed \<Rightarrow> step \<in> set allowed)"

text \<open>
  What \<open>prepare_gpx_dataframe\<close> establishes for the frame it returns: there is a row,
  the cumulative distance and the elapsed time start at zero and do not decrease.
\<close>

definition annotated_track :: "dataframe \<Rightarrow> bool" where
  "annotated_track df =
     (rows df \<noteq> [] \<and>
      cumulative_meters (hd (rows df)) = 0 \<and> sorted (map cumulative_meters (rows df)) \<and>
      elapsed_time (hd (rows df)) = 0 \<and> sorted (map elapsed_time (rows df)))"

subsection \<open>The marker generation in the words of the specification\<close>

text \<open>
  The marker generation as the specification words it, to be compared with the code:
  the candidates \<open>step, 2*step, 3*step, ...\<close> strictly below the total distance,
  not rounded.
\<close>

definition spec_candidates :: "rat \<Rightarrow> rat \<Rightarrow> rat list" where
  "spec_candidates step ttl = map (\<lambda>k. of_nat k * step) [1..<nat \<lceil>ttl / step\<rceil>]"




subsection \<open>Definitions of the proofs\<close>

text \<open>
  The number of rounds of the marker loop that starts at \<open>current\<close>, for a positive
  step: the closed form that the proofs use.
\<close>

definition marker_count :: "rat \<Rightarrow> rat \<Rightarrow> rat \<Rightarrow> nat" where
  "marker_count step mx current = nat \<lceil>(mx - current) / step\<rceil>"

text \<open>The test of the marker loop at line 133, negated: the marker gets a record.\<close>

definition kept :: "rat list \<Rightarrow> rat \<Rightarrow> bool" where
  "kept du marker = (\<not> (bisect_left du marker = 0 \<or> length du \<le> bisect_left du marker))"


subsection \<open>Example tracks\<close>

text \<open>A row of a frame with the cumulative distance and the elapsed time given, and a row of a result.\<close>

definition wrow :: "rat \<Rightarrow> rat \<Rightarrow> track_row" where
  "wrow c e = \<lparr>time = e, latitude = 0, longitude = 0, elevation = None,
               segment_meters = 0, cumulative_meters = c, elapsed_time = e\<rparr>"

definition srow ::
  "rat \<Rightarrow> rat \<Rightarrow> rat \<Rightarrow> string \<Rightarrow> string \<Rightarrow> rat \<Rightarrow> rat \<Rightarrow> string \<Rightarrow> string \<Rightarrow> split_row" where
  "srow m e st st_mmss st_hhmmss sd p p_mmss p_hhmmss =
     \<lparr>unit_split = m, elapsed_time_sec = e, split_time_sec = st,
      split_pace_mmss = st_mmss, split_pace_hhmmss = st_hhmmss,
      split_distance = sd, pace_seconds = Fin p,
      pace_mmss = p_mmss, pace_hhmmss = p_hhmmss, pace = p_mmss\<rparr>"

text \<open>A track of 3.4 km in 700 s, and the splits of it by the kilometre.\<close>

definition demo_track :: dataframe where
  "demo_track =
     \<lparr>rows = [wrow 0 0, wrow 500 100, wrow 1000 200, wrow 1500 300, wrow 2000 400,
              wrow 2700 500, wrow 3000 600, wrow 3400 700],
      distance_unit = None\<rparr>"

definition demo_splits :: "split_row list" where
  "demo_splits =
     [srow 1 200 200 ''03:20'' ''00:03:20'' 1 200 ''03:20'' ''00:03:20'',
      srow 2 400 200 ''03:20'' ''00:03:20'' 1 200 ''03:20'' ''00:03:20'',
      srow 3 600 200 ''03:20'' ''00:03:20'' 1 200 ''03:20'' ''00:03:20'',
      srow (17/5) 700 100 ''01:40'' ''00:01:40'' (2/5) 250 ''04:10'' ''00:04:10'']"


text \<open>A recording of one track with one segment without points.\<close>

definition empty_gpx :: "gpx_track list" where
  "empty_gpx = [\<lparr>name = Some ''Morning Run'', segments = [[]]\<rparr>]"

text \<open>Two points at the same place, ten seconds apart; and a track of one point.\<close>

definition stationary_track :: dataframe where
  "stationary_track = \<lparr>rows = [wrow 0 0, wrow 0 10], distance_unit = None\<rparr>"

definition single_point_track :: dataframe where
  "single_point_track = \<lparr>rows = [wrow 0 0], distance_unit = None\<rparr>"

section \<open>Properties\<close>

subsection \<open>The allow-lists and the rounding\<close>

lemma allowed_steps_all:
  "\<forall>(u, l) \<in> set ALLOWED_STEPS. \<forall>s \<in> set l. 0 < s \<and> 1/4 \<le> s \<and> s * 100 \<in> \<int>"
  by (simp add: ALLOWED_STEPS_def)

lemma valid_config_step:
  assumes "valid_config unit step"
  shows "0 < step" and "step * 100 \<in> \<int>" and "1/4 \<le> step"
proof -
  from assms obtain allowed where a: "map_of ALLOWED_STEPS unit = Some allowed" "step \<in> set allowed"
    by (auto simp: valid_config_def split: option.splits)
  from a(1) have "(unit, allowed) \<in> set ALLOWED_STEPS" by (rule map_of_SomeD)
  with allowed_steps_all a(2) have "0 < step \<and> 1/4 \<le> step \<and> step * 100 \<in> \<int>" by fastforce
  then show "0 < step" and "step * 100 \<in> \<int>" and "1/4 \<le> step" by simp_all
qed

lemma valid_config_unit:
  assumes "valid_config unit step"
  shows "unit = ''meters'' \<or> unit = ''km'' \<or> unit = ''mi''"
  using assms
  by (auto simp: valid_config_def ALLOWED_STEPS_def split: if_splits)

lemma valid_config_conv:
  assumes "valid_config unit step"
  shows "\<exists>conv. map_of UNIT_CONVERSIONS unit = Some conv \<and> 0 < conv"
proof -
  have "map_of UNIT_CONVERSIONS unit \<noteq> None"
    using valid_config_unit[OF assms] by (elim disjE; simp add: UNIT_CONVERSIONS_def)
  then obtain conv where c: "map_of UNIT_CONVERSIONS unit = Some conv" by blast
  then have "(unit, conv) \<in> set UNIT_CONVERSIONS" by (rule map_of_SomeD)
  moreover have "\<forall>(u, c) \<in> set UNIT_CONVERSIONS. 0 < c" by (simp add: UNIT_CONVERSIONS_def)
  ultimately have "0 < conv" by fastforce
  with c show ?thesis by blast
qed

lemma round_half_even_of_int: "round_half_even (of_int z) = z"
  by (simp add: round_half_even_def)

lemma round2_hundredths:
  assumes "x * 100 \<in> \<int>"
  shows "round2 x = x"
proof -
  from assms obtain z :: int where z: "x * 100 = of_int z" by (auto elim: Ints_cases)
  then show ?thesis by (simp add: round2_def round_half_even_of_int)
qed

lemma round2_multiple:
  assumes "step * 100 \<in> \<int>"
  shows "round2 (of_nat k * step) = of_nat k * step"
proof (rule round2_hundredths)
  have "of_nat k * step * 100 = of_nat k * (step * 100)" by simp
  also have "\<dots> \<in> \<int>" using assms by (rule Ints_mult[OF Ints_of_nat])
  finally show "of_nat k * step * 100 \<in> \<int>" .
qed

subsection \<open>The marker loop returns\<close>

lemma create_split_markers_closed:
  assumes "0 < step"
  shows "create_split_markers step mx current acc =
         Some (acc @ map (\<lambda>k. round2 (current + of_nat k * step)) [0..<marker_count step mx current])"
proof (induction "marker_count step mx current" arbitrary: current acc)
  case 0
  then have "(mx - current) / step \<le> 0" by (simp add: marker_count_def)
  with assms have "\<not> current < mx" by (simp add: divide_le_0_iff)
  with 0 show ?case by (subst create_split_markers.simps) simp
next
  case (Suc n)
  then have pos: "0 < (mx - current) / step" by (simp add: marker_count_def) linarith
  with assms have lt: "current < mx" by (simp add: zero_less_divide_iff)
  have "(mx - (current + step)) / step = (mx - current) / step - 1"
    using assms by (simp add: field_simps)
  then have cnt: "marker_count step mx (current + step) = n"
    using Suc(2) by (simp add: marker_count_def)
  have "create_split_markers step mx current acc =
        create_split_markers step mx (current + step) (acc @ [round2 current])"
    using lt by (subst create_split_markers.simps) simp
  also have "\<dots> = Some ((acc @ [round2 current]) @
                 map (\<lambda>k. round2 (current + step + of_nat k * step)) [0..<n])"
    using Suc(1)[OF cnt[symmetric]] cnt by simp
  also have "map (\<lambda>k. round2 (current + step + of_nat k * step)) [0..<n] =
             map (\<lambda>k. round2 (current + of_nat k * step)) (map Suc [0..<n])"
    by (simp add: algebra_simps)
  also have "(acc @ [round2 current]) @ map (\<lambda>k. round2 (current + of_nat k * step)) (map Suc [0..<n])
      = acc @ map (\<lambda>k. round2 (current + of_nat k * step)) (0 # map Suc [0..<n])"
    by simp
  also have "0 # map Suc [0..<n] = [0..<Suc n]"
    by (simp add: upt_conv_Cons map_Suc_upt del: upt_Suc)
  finally show ?case using Suc(2) by simp
qed

lemma create_split_markers_returns:
  assumes "valid_config unit step"
  shows "\<exists>ms. create_split_markers step mx step [] = Some ms"
  using create_split_markers_closed[OF valid_config_step(1)[OF assms]] by blast

subsection \<open>The left bisection on a sorted list\<close>







subsection \<open>Differences, columns and the frame of the splits\<close>



lemma length_diff_fillna: "length (diff_fillna xs) = length xs"
  by (cases xs) auto

lemma apply_column_length:
  "apply_column f xs = Inr ys \<Longrightarrow> length ys = length xs"
  by (induction xs arbitrary: ys) (auto split: sum.splits)


lemma apply_column_Inl:
  "apply_column f xs = Inl e \<Longrightarrow> \<exists>x \<in> set xs. f x = Inl e"
  by (induction xs) (auto split: sum.splits)

lemma split_frame_Inr:
  assumes "split_frame sd = Inr out"
  shows "sd \<noteq> []" and "length out = length sd"
    and "map unit_split out = map fst sd"
    and "map elapsed_time_sec out = map snd sd"
    and "map split_time_sec out = diff_fillna (map snd sd)"
    and "map split_distance out = diff_fillna (map fst sd)"
proof -
  show ne: "sd \<noteq> []" using assms by (auto simp: split_frame_def)
  from assms ne obtain a b c d where
    out: "out = map (\<lambda>i. \<lparr>unit_split = map fst sd ! i,
                              elapsed_time_sec = map snd sd ! i,
                              split_time_sec = diff_fillna (map snd sd) ! i,
                              split_pace_mmss = a ! i,
                              split_pace_hhmmss = b ! i,
                              split_distance = diff_fillna (map fst sd) ! i,
                              pace_seconds = map fround2 (map2 pd_div (diff_fillna (map snd sd)) (diff_fillna (map fst sd))) ! i,
                              pace_mmss = c ! i,
                              pace_hhmmss = d ! i,
                              pace = c ! i\<rparr>)
                       [0..<length sd]"
    by (auto simp: split_frame_def Let_def split: sum.splits)
  show "length out = length sd" by (simp add: out)
  show "map unit_split out = map fst sd"
    by (rule nth_equalityI) (simp_all add: out)
  show "map elapsed_time_sec out = map snd sd"
    by (rule nth_equalityI) (simp_all add: out)
  show "map split_time_sec out = diff_fillna (map snd sd)"
    by (rule nth_equalityI) (simp_all add: out length_diff_fillna)
  show "map split_distance out = diff_fillna (map fst sd)"
    by (rule nth_equalityI) (simp_all add: out length_diff_fillna)
qed

lemma mmss_error:
  "mmss x = Inl e \<Longrightarrow> e = OverflowError \<or> e = ValueError NaNToInteger"
  by (cases x) (auto simp: mmss_def timedelta_str_def Let_def split: if_splits sum.splits)

lemma hhmmss_error:
  "hhmmss x = Inl e \<Longrightarrow> e = OverflowError \<or> e = ValueError NaNToInteger"
  by (cases x) (auto simp: hhmmss_def timedelta_str_def Let_def split: if_splits sum.splits)

lemma split_frame_error:
  assumes "split_frame sd = Inl e"
  shows "e = KeyError ''elapsed_time_sec'' \<or> e = OverflowError \<or> e = ValueError NaNToInteger"
  using assms
  by (auto simp: split_frame_def Let_def split: if_splits sum.splits
           dest!: apply_column_Inl dest: mmss_error hhmmss_error)

subsection \<open>The call after the validation\<close>

lemma compute_splits_valid:
  assumes "valid_config unit step" and "map_of UNIT_CONVERSIONS unit = Some conv"
    and "rows df \<noteq> []"
  shows "compute_splits df unit step =
         Some (df\<lparr>distance_unit := Some (converted_distances conv df)\<rparr>,
               split_frame (split_data (converted_distances conv df)
                              (map elapsed_time (rows df))
                              (map (\<lambda>k. of_nat (Suc k) * step)
                                 [0..<marker_count step (cumulative_meters (last (rows df)) / conv) step])))"
proof -
  have pos: "0 < step" and hund: "step * 100 \<in> \<int>" using valid_config_step[OF assms(1)] by simp_all
  have r: "round2 (step + of_nat k * step) = of_nat (Suc k) * step" for k
    using round2_multiple[OF hund, of "Suc k"] by (simp add: algebra_simps)
  have "create_split_markers step mx step [] =
        Some (map (\<lambda>k. of_nat (Suc k) * step) [0..<marker_count step mx step])" for mx
    unfolding create_split_markers_closed[OF pos] using r by simp
  then show ?thesis
    using assms by (auto simp: compute_splits_def valid_config_def converted_distances_def Let_def last_map split: option.splits)
qed

lemma compute_splits_empty:
  assumes "valid_config unit step" and "rows df = []"
  shows "compute_splits df unit step = Some (df\<lparr>distance_unit := Some []\<rparr>, Inl IndexError)"
  using assms valid_config_conv[OF assms(1)]
  by (auto simp: compute_splits_def valid_config_def converted_distances_def Let_def split: option.splits)


subsection \<open>Durations, validation and the written column\<close>


text \<open>
  Claim C5. A unit that is not one of the three raises the \<open>ValueError\<close> of the first
  test, a step that is not in the list of the unit raises the \<open>ValueError\<close> of the
  second one; in both cases for any frame, also an empty one, and the frame is returned
  as it was: nothing has been computed on the track. With a valid unit and step the call
  returns or raises, but never one of these two errors.
\<close>

theorem config_validation:
  "(unit \<notin> {''meters'', ''km'', ''mi''} \<longrightarrow>
      compute_splits df unit step = Some (df, Inl (ValueError InvalidUnit))) \<and>
   (unit \<in> {''meters'', ''km'', ''mi''} \<and> \<not> valid_config unit step \<longrightarrow>
      compute_splits df unit step = Some (df, Inl (ValueError StepNotAllowed))) \<and>
   (valid_config unit step \<longrightarrow>
      (\<exists>df' res. compute_splits df unit step = Some (df', res) \<and>
                 (\<forall>e. res = Inl e \<longrightarrow> \<not> config_error e)))"
proof (intro conjI impI)
  assume "unit \<notin> {''meters'', ''km'', ''mi''}"
  then have "map_of ALLOWED_STEPS unit = None" by (simp add: ALLOWED_STEPS_def)
  then show "compute_splits df unit step = Some (df, Inl (ValueError InvalidUnit))"
    by (simp add: compute_splits_def)
next
  assume a: "unit \<in> {''meters'', ''km'', ''mi''} \<and> \<not> valid_config unit step"
  then have "map_of ALLOWED_STEPS unit \<noteq> None" by (auto simp: ALLOWED_STEPS_def)
  then obtain allowed where al: "map_of ALLOWED_STEPS unit = Some allowed" by blast
  with a have "step \<notin> set allowed" by (simp add: valid_config_def)
  with al show "compute_splits df unit step = Some (df, Inl (ValueError StepNotAllowed))"
    by (simp add: compute_splits_def)
next
  assume v: "valid_config unit step"
  from valid_config_conv[OF v] obtain conv where c: "map_of UNIT_CONVERSIONS unit = Some conv"
    by blast
  show "\<exists>df' res. compute_splits df unit step = Some (df', res) \<and>
                 (\<forall>e. res = Inl e \<longrightarrow> \<not> config_error e)"
  proof (cases "rows df = []")
    case True
    show ?thesis unfolding compute_splits_empty[OF v True] by (simp add: config_error_def)
  next
    case False
    show ?thesis unfolding compute_splits_valid[OF v c False]
      by (auto simp: config_error_def dest: split_frame_error)
  qed
qed

text \<open>
  Claim C10. With a valid unit and step, whatever the call returns or raises afterwards,
  it leaves the frame of the caller with the column \<open>distance_unit\<close> written, the
  cumulative distances over the divisor of the unit, and with the same rows; a frame
  that did not have the column is not the frame it was.
\<close>

theorem distance_unit_written:
  assumes "valid_config unit step" and "map_of UNIT_CONVERSIONS unit = Some conv"
  shows "\<exists>df' res. compute_splits df unit step = Some (df', res) \<and>
           df' = df\<lparr>distance_unit := Some (converted_distances conv df)\<rparr> \<and>
           rows df' = rows df \<and>
           (distance_unit df = None \<longrightarrow> df' \<noteq> df)"
proof (cases "rows df = []")
  case True
  show ?thesis unfolding compute_splits_empty[OF assms(1) True] using True
    by (cases df) (auto simp: converted_distances_def)
next
  case False
  show ?thesis unfolding compute_splits_valid[OF assms False]
    by (cases df) auto
qed

subsection \<open>The generated markers and the final record\<close>


lemma closed_markers_sorted:
  assumes "0 < (step::rat)"
  shows "sorted_wrt (<) (map (\<lambda>k. of_nat (Suc k) * step) [0..<n])"
  unfolding sorted_wrt_iff_nth_less
proof (intro allI impI)
  fix i j :: nat
  assume ij: "i < j" and "j < length (map (\<lambda>k. of_nat (Suc k) * step) [0..<n])"
  then have j: "j < n" by simp
  from ij have "(of_nat (Suc i) :: rat) < of_nat (Suc j)" by simp
  then have "of_nat (Suc i) * step < of_nat (Suc j) * step"
    using assms by (rule mult_strict_right_mono)
  with ij j show "map (\<lambda>k. of_nat (Suc k) * step) [0..<n] ! i
                  < map (\<lambda>k. of_nat (Suc k) * step) [0..<n] ! j" by simp
qed

lemma sorted_le_last:
  assumes "sorted (xs::rat list)" "x \<in> set xs"
  shows "x \<le> last xs"
proof -
  from assms(2) obtain i where i: "i < length xs" "xs ! i = x" by (auto simp: in_set_conv_nth)
  then have ne: "xs \<noteq> []" by auto
  have "xs ! i \<le> xs ! (length xs - 1)"
    using assms(1) i(1) by (intro sorted_nth_mono) simp_all
  with i ne show ?thesis by (simp add: last_conv_nth)
qed

lemma marker_records_fst:
  "map fst (marker_records du el ms) = filter (kept du) ms"
  by (induction ms) (auto simp: Let_def kept_def)


lemma split_frame_pairs:
  assumes "split_frame sd = Inr out"
  shows "map (\<lambda>r. (unit_split r, elapsed_time_sec r)) out = sd"
proof -
  note f = split_frame_Inr[OF assms]
  have "map (\<lambda>r. (unit_split r, elapsed_time_sec r)) out =
        zip (map unit_split out) (map elapsed_time_sec out)"
    by (induction out) auto
  also have "\<dots> = zip (map fst sd) (map snd sd)" by (simp only: f(3,4))
  also have "\<dots> = sd" by (rule zip_map_fst_snd)
  finally show ?thesis .
qed



lemma generated_markers:
  assumes "valid_config unit step"
    and "create_split_markers step mx step [] = Some ms"
  shows "ms = map (\<lambda>k. of_nat (Suc k) * step) [0..<marker_count step mx step]"
proof -
  have pos: "0 < step" and hund: "step * 100 \<in> \<int>" using valid_config_step[OF assms(1)] by simp_all
  have r: "round2 (step + of_nat k * step) = of_nat (Suc k) * step" for k
    using round2_multiple[OF hund, of "Suc k"] by (simp add: algebra_simps)
  from assms(2) show ?thesis
    unfolding create_split_markers_closed[OF pos] using r by simp
qed


text \<open>
  Claim C2. For a valid pair of unit and step, the distance markers of the records that
  \<open>compute_splits\<close> returns are strictly increasing, and the final record, when the
  rule of the final record appends it, is the last one. The proof needs no assumption on
  the order of the cumulative distances.
\<close>

theorem markers_strictly_increasing:
  assumes "valid_config unit step"
    and "map_of UNIT_CONVERSIONS unit = Some conv"
    and "create_split_markers step (cumulative_meters (last (rows df)) / conv) step [] = Some ms"
    and "compute_splits df unit step = Some (df', Inr out)"
  shows "sorted_wrt (<) (map unit_split out) \<and>
         (ms = [] \<or> last ms < round2 (cumulative_meters (last (rows df)) / conv) \<longrightarrow>
            unit_split (last out) = round2 (cumulative_meters (last (rows df)) / conv) \<and>
            elapsed_time_sec (last out) = elapsed_time (last (rows df)))"
proof -
  let ?du = "converted_distances conv df" and ?el = "map elapsed_time (rows df)"
  let ?fd = "round2 (cumulative_meters (last (rows df)) / conv)"
  have ne: "rows df \<noteq> []"
  proof
    assume "rows df = []"
    from assms(4) show False unfolding compute_splits_empty[OF assms(1) \<open>rows df = []\<close>] by simp
  qed
  have pos: "0 < step" using valid_config_step[OF assms(1)] by simp
  note ms = generated_markers[OF assms(1,3)]
  have lastdu: "last ?du = cumulative_meters (last (rows df)) / conv"
    using ne by (simp add: converted_distances_def last_map)
  from assms(4) have sf: "split_frame (split_data ?du ?el ms) = Inr out"
    unfolding compute_splits_valid[OF assms(1,2) ne] ms by simp
  note f = split_frame_Inr[OF sf]
  have sms: "sorted_wrt (<) ms" unfolding ms by (rule closed_markers_sorted[OF pos])
  have kept_sorted: "sorted_wrt (<) (filter (kept ?du) ms)"
    using sms by (rule sorted_wrt_filter)
  have fst_sd: "map fst (split_data ?du ?el ms) =
        filter (kept ?du) ms @ (if ms = [] \<or> last ms < ?fd then [?fd] else [])"
    by (simp add: split_data_def Let_def marker_records_fst lastdu)
  have "sorted_wrt (<) (filter (kept ?du) ms @ (if ms = [] \<or> last ms < ?fd then [?fd] else []))"
  proof (cases "ms = [] \<or> last ms < ?fd")
    case False
    with kept_sorted show ?thesis by simp
  next
    case True
    have "\<forall>m \<in> set (filter (kept ?du) ms). m < ?fd"
    proof
      fix m assume m: "m \<in> set (filter (kept ?du) ms)"
      then have mm: "m \<in> set ms" by simp
      then have nem: "ms \<noteq> []" by auto
      from sms have "sorted ms" by (rule strict_sorted_imp_sorted)
      then have "m \<le> last ms" using mm by (rule sorted_le_last)
      with True nem show "m < ?fd" by simp
    qed
    with kept_sorted True show ?thesis by (simp add: sorted_wrt_append)
  qed
  then have A: "sorted_wrt (<) (map unit_split out)" by (simp only: f(3) fst_sd)
  have B: "unit_split (last out) = ?fd \<and> elapsed_time_sec (last out) = elapsed_time (last (rows df))"
    if c: "ms = [] \<or> last ms < ?fd"
  proof -
    have "last (map (\<lambda>r. (unit_split r, elapsed_time_sec r)) out) = (?fd, elapsed_time (last (rows df)))"
      unfolding split_frame_pairs[OF sf] using c ne
      by (auto simp: split_data_def Let_def lastdu last_map)
    moreover have "out \<noteq> []" using f(1,2) by auto
    ultimately show ?thesis by (simp add: last_map)
  qed
  from A B show ?thesis by blast
qed

subsection \<open>The claims on the example track\<close>

lemma demo_run:
  "compute_splits demo_track ''km'' 1 =
     Some (demo_track\<lparr>distance_unit := Some [0, 1/2, 1, 3/2, 2, 27/10, 3, 17/5]\<rparr>, Inr demo_splits)"
  by code_simp


lemma demo_valid: "valid_config ''km'' 1"
  by code_simp

lemma demo_conv: "map_of UNIT_CONVERSIONS ''km'' = Some 1000"
  by code_simp

lemma demo_markers:
  "create_split_markers 1 (cumulative_meters (last (rows demo_track)) / 1000) 1 [] = Some [1, 2, 3]"
  by code_simp



theorem markers_strictly_increasing_witness:
  "valid_config ''km'' 1 \<and>
   map_of UNIT_CONVERSIONS ''km'' = Some 1000 \<and>
   create_split_markers 1 (cumulative_meters (last (rows demo_track)) / 1000) 1 [] = Some [1, 2, 3] \<and>
   compute_splits demo_track ''km'' 1 =
     Some (demo_track\<lparr>distance_unit := Some [0, 1/2, 1, 3/2, 2, 27/10, 3, 17/5]\<rparr>, Inr demo_splits) \<and>
   sorted_wrt (<) (map unit_split demo_splits) \<and>
   ([1, 2, 3::rat] = [] \<or> last [1, 2, 3] < round2 (cumulative_meters (last (rows demo_track)) / 1000)) \<and>
   unit_split (last demo_splits) = round2 (cumulative_meters (last (rows demo_track)) / 1000) \<and>
   elapsed_time_sec (last demo_splits) = elapsed_time (last (rows demo_track))"
proof -
  note t = markers_strictly_increasing[OF demo_valid demo_conv demo_markers demo_run]
  have c: "[1, 2, 3::rat] = [] \<or>
           last [1, 2, 3] < round2 (cumulative_meters (last (rows demo_track)) / 1000)"
    by code_simp
  from conjunct2[OF t] c
  have l: "unit_split (last demo_splits) = round2 (cumulative_meters (last (rows demo_track)) / 1000) \<and>
           elapsed_time_sec (last demo_splits) = elapsed_time (last (rows demo_track))"
    by (rule mp)
  show ?thesis
    by (intro conjI demo_valid demo_conv demo_markers demo_run conjunct1[OF t] c
          conjunct1[OF l] conjunct2[OF l])
qed

theorem config_validation_witness:
  "''furlong'' \<notin> {''meters'', ''km'', ''mi''} \<and>
   compute_splits demo_track ''furlong'' 1 = Some (demo_track, Inl (ValueError InvalidUnit)) \<and>
   ''km'' \<in> {''meters'', ''km'', ''mi''} \<and> \<not> valid_config ''km'' 3 \<and>
   compute_splits demo_track ''km'' 3 = Some (demo_track, Inl (ValueError StepNotAllowed)) \<and>
   valid_config ''km'' 1 \<and>
   compute_splits single_point_track ''km'' 1 =
     Some (single_point_track\<lparr>distance_unit := Some [0]\<rparr>, Inl (ValueError NaNToInteger)) \<and>
   \<not> config_error (ValueError NaNToInteger)"
proof -
  have u: "''furlong'' \<notin> {''meters'', ''km'', ''mi''}" by simp
  have s: "''km'' \<in> {''meters'', ''km'', ''mi''} \<and> \<not> valid_config ''km'' 3"
    by (simp add: valid_config_def ALLOWED_STEPS_def)
  have r: "compute_splits single_point_track ''km'' 1 =
     Some (single_point_track\<lparr>distance_unit := Some [0]\<rparr>, Inl (ValueError NaNToInteger))"
    by code_simp
  note t1 = config_validation[of "''furlong''" demo_track 1]
  note t2 = config_validation[of "''km''" demo_track 3]
  note t3 = config_validation[of "''km''" single_point_track 1]
  from t1 u have a: "compute_splits demo_track ''furlong'' 1 = Some (demo_track, Inl (ValueError InvalidUnit))"
    by blast
  from t2 s have b: "compute_splits demo_track ''km'' 3 = Some (demo_track, Inl (ValueError StepNotAllowed))"
    by blast
  from t3 demo_valid r have c: "\<not> config_error (ValueError NaNToInteger)"
    by auto
  from u a s b demo_valid r c show ?thesis by blast
qed

theorem distance_unit_written_witness:
  "valid_config ''km'' 1 \<and> map_of UNIT_CONVERSIONS ''km'' = Some 1000 \<and>
   distance_unit demo_track = None \<and>
   (\<exists>df' res. compute_splits demo_track ''km'' 1 = Some (df', res) \<and>
      df' = demo_track\<lparr>distance_unit := Some (converted_distances 1000 demo_track)\<rparr> \<and>
      rows df' = rows demo_track \<and> df' \<noteq> demo_track)"
proof -
  have n: "distance_unit demo_track = None" by (simp add: demo_track_def)
  from distance_unit_written[OF demo_valid demo_conv, of demo_track] n demo_valid demo_conv
  show ?thesis by blast
qed

subsection \<open>The code against the marker generation of the specification\<close>

lemma spec_candidates_iff:
  assumes "0 < step"
  shows "c \<in> set (spec_candidates step ttl) \<longleftrightarrow>
         (\<exists>k::nat. 1 \<le> k \<and> c = of_nat k * step \<and> c < ttl)"
proof -
  have "(k < nat \<lceil>ttl / step\<rceil>) = (of_nat k * step < ttl)" for k :: nat
  proof -
    have "(k < nat \<lceil>ttl / step\<rceil>) = (int k < \<lceil>ttl / step\<rceil>)" by auto
    also have "\<dots> = (of_nat k < ttl / step)" by (simp add: less_ceiling_iff)
    also have "\<dots> = (of_nat k * step < ttl)" using assms by (simp add: pos_less_divide_eq)
    finally show ?thesis .
  qed
  then show ?thesis by (auto simp: spec_candidates_def)
qed





subsection \<open>The allow-list of the mile\<close>

text \<open>
  Claim C6. The list of the unit \<open>mi\<close> has nine steps, not the sequence in
  increments of 0.25 that the docstring of \<open>compute_splits\<close> announces: the step
  0.75 is rejected.
\<close>

theorem mi_step_three_quarters_rejected:
  "compute_splits \<lparr>rows = [wrow 0 0, wrow (160934/100) 600], distance_unit = None\<rparr> ''mi'' (3/4) =
     Some (\<lparr>rows = [wrow 0 0, wrow (160934/100) 600], distance_unit = None\<rparr>,
           Inl (ValueError StepNotAllowed))"
  by (simp add: compute_splits_def ALLOWED_STEPS_def)

subsection \<open>A recording without points\<close>

text \<open>
  Claim C9, as the code has it. A recording without any point raises: the frame made of
  no points has no column \<open>time\<close>, and line 59 raises \<open>KeyError\<close>. No frame is
  returned. The source has no test for this case and no error of its own for it.
\<close>

theorem empty_track_key_error:
  assumes "concat (map (\<lambda>track. concat (segments track)) tracks) = []"
  shows "prepare_gpx_dataframe geodesic_meters tracks = Inl (KeyError ''time'')"
  using assms by (simp add: prepare_gpx_dataframe_def Let_def)

theorem empty_track_key_error_witness:
  "concat (map (\<lambda>track. concat (segments track)) empty_gpx) = [] \<and>
   prepare_gpx_dataframe (\<lambda>p q. 0) empty_gpx = Inl (KeyError ''time'')"
proof -
  have h: "concat (map (\<lambda>track. concat (segments track)) empty_gpx) = []"
    by (simp add: empty_gpx_def)
  from empty_track_key_error[OF h] h show ?thesis by simp
qed

text \<open>
  Claim C9, as stated, fails: the exception of the empty recording is the
  \<open>KeyError\<close> of the column access, not an error raised by the loader for that case.
\<close>

theorem empty_track_not_structured:
  "prepare_gpx_dataframe (\<lambda>p q. 0) [\<lparr>name = Some ''Morning Run'', segments = [[]]\<rparr>] =
     Inl (KeyError ''time'')"
  by (simp add: prepare_gpx_dataframe_def Let_def)

subsection \<open>A split of distance zero\<close>

lemma apply_column_raises:
  "x \<in> set xs \<Longrightarrow> f x = Inl e0 \<Longrightarrow> \<exists>e. apply_column f xs = Inl e"
  by (induction xs) (auto split: sum.splits)

lemma mmss_zero_division:
  "\<exists>e. mmss (fround2 (pd_div a 0)) = Inl e"
  by (simp add: pd_div_def mmss_def)

lemma split_frame_zero_distance:
  assumes "0 \<in> set (diff_fillna (map fst sd))"
  shows "\<exists>e. split_frame sd = Inl e \<and> (e = OverflowError \<or> e = ValueError NaNToInteger)"
proof -
  let ?st = "diff_fillna (map snd sd)" and ?sdist = "diff_fillna (map fst sd)"
  let ?paces = "map fround2 (map2 pd_div ?st ?sdist)"
  from assms have ne: "sd \<noteq> []" by auto
  from assms obtain i where i: "i < length ?sdist" "?sdist ! i = 0"
    by (auto simp: in_set_conv_nth)
  then have il: "i < length sd" by (simp add: length_diff_fillna)
  then have "?paces ! i = fround2 (pd_div (?st ! i) 0)"
    using i by (simp add: length_diff_fillna)
  moreover have "?paces ! i \<in> set ?paces"
  proof (rule nth_mem)
    show "i < length ?paces" using il by (simp add: length_diff_fillna)
  qed
  ultimately obtain e0 p where p: "p \<in> set ?paces" "mmss p = Inl e0"
    using mmss_zero_division by metis
  from apply_column_raises[of p ?paces mmss e0, OF p] obtain e1 where e1: "apply_column mmss ?paces = Inl e1" by blast
  then have e1': "e1 = OverflowError \<or> e1 = ValueError NaNToInteger"
    by (auto dest!: apply_column_Inl dest: mmss_error)
  show ?thesis
  proof (cases "apply_column mmss (map Fin ?st)")
    case (Inl e)
    then have "e = OverflowError \<or> e = ValueError NaNToInteger"
      by (auto dest!: apply_column_Inl dest: mmss_error)
    with Inl ne show ?thesis by (simp add: split_frame_def)
  next
    case a: (Inr ys)
    show ?thesis
    proof (cases "apply_column hhmmss (map Fin ?st)")
      case (Inl e)
      then have "e = OverflowError \<or> e = ValueError NaNToInteger"
        by (auto dest!: apply_column_Inl dest: hhmmss_error)
      with Inl a ne show ?thesis by (simp add: split_frame_def)
    next
      case b: (Inr zs)
      from a b e1 e1' ne show ?thesis by (simp add: split_frame_def Let_def)
    qed
  qed
qed

text \<open>
  Claim C7, as the code has it. The division of the pace is not guarded. When a record
  has the split distance zero its pace is \<open>inf\<close>, \<open>-inf\<close> or \<open>nan\<close>, and the call
  returns no records: it raises \<open>OverflowError\<close> or \<open>ValueError\<close>, out of \<open>int\<close> in
  the formatting of the pace at the latest.
\<close>

theorem zero_split_distance_raises:
  assumes "valid_config unit step" and "map_of UNIT_CONVERSIONS unit = Some conv"
    and "rows df \<noteq> []"
    and "create_split_markers step (cumulative_meters (last (rows df)) / conv) step [] = Some ms"
    and "0 \<in> set (diff_fillna (map fst (split_data (converted_distances conv df)
                                         (map elapsed_time (rows df)) ms)))"
  shows "\<exists>df' e. compute_splits df unit step = Some (df', Inl e) \<and>
                 (e = OverflowError \<or> e = ValueError NaNToInteger)"
proof -
  note ms = generated_markers[OF assms(1,4)]
  from split_frame_zero_distance[OF assms(5)] show ?thesis
    unfolding compute_splits_valid[OF assms(1,2,3)] ms by blast
qed

theorem zero_split_distance_raises_witness:
  "valid_config ''km'' 1 \<and> map_of UNIT_CONVERSIONS ''km'' = Some 1000 \<and>
   rows single_point_track \<noteq> [] \<and>
   create_split_markers 1 (cumulative_meters (last (rows single_point_track)) / 1000) 1 [] = Some [] \<and>
   0 \<in> set (diff_fillna (map fst (split_data (converted_distances 1000 single_point_track)
                                     (map elapsed_time (rows single_point_track)) []))) \<and>
   (\<exists>df' e. compute_splits single_point_track ''km'' 1 = Some (df', Inl e) \<and>
            (e = OverflowError \<or> e = ValueError NaNToInteger))"
proof -
  have r: "rows single_point_track \<noteq> []" by (simp add: single_point_track_def)
  have m: "create_split_markers 1 (cumulative_meters (last (rows single_point_track)) / 1000) 1 [] = Some []"
    by code_simp
  have z: "0 \<in> set (diff_fillna (map fst (split_data (converted_distances 1000 single_point_track)
                                     (map elapsed_time (rows single_point_track)) [])))"
    by code_simp
  from zero_split_distance_raises[OF demo_valid demo_conv r m z] demo_valid demo_conv r m z
  show ?thesis by blast
qed

text \<open>
  Claim C7, as stated, fails: on a track that does not move the only record has the
  split distance zero, and the call raises the \<open>OverflowError\<close> of \<open>int(inf)\<close>; on a
  track of one point the \<open>ValueError\<close> of \<open>int(nan)\<close>.
\<close>

theorem zero_split_distance_crash:
  "diff_fillna (map fst (split_data (converted_distances 1000 stationary_track)
                           (map elapsed_time (rows stationary_track)) [])) = [0] \<and>
   compute_splits stationary_track ''km'' 1 =
     Some (stationary_track\<lparr>distance_unit := Some [0, 0]\<rparr>, Inl OverflowError) \<and>
   compute_splits single_point_track ''km'' 1 =
     Some (single_point_track\<lparr>distance_unit := Some [0]\<rparr>, Inl (ValueError NaNToInteger))"
  by code_simp

subsection \<open>A track of exactly three steps\<close>











subsection \<open>The frame of the loader is an annotated track\<close>

lemma length_cumsum_from: "length (cumsum_from acc xs) = length xs"
  by (induction xs arbitrary: acc) auto

lemma cumsum_from_lower:
  assumes "\<forall>x \<in> set xs. 0 \<le> x" and "c \<in> set (cumsum_from acc xs)"
  shows "acc \<le> c"
  using assms
proof (induction xs arbitrary: acc)
  case Nil
  then show ?case by simp
next
  case (Cons x xs)
  from Cons.prems(2) have "c = acc + x \<or> c \<in> set (cumsum_from (acc + x) xs)" by simp
  then show ?case
  proof
    assume "c = acc + x"
    with Cons.prems(1) show ?thesis by simp
  next
    assume "c \<in> set (cumsum_from (acc + x) xs)"
    then have "acc + x \<le> c" using Cons.IH[of "acc + x"] Cons.prems(1) by simp
    with Cons.prems(1) show ?thesis by simp
  qed
qed

lemma sorted_cumsum_from:
  assumes "\<forall>x \<in> set xs. 0 \<le> x"
  shows "sorted (cumsum_from acc xs)"
  using assms
proof (induction xs arbitrary: acc)
  case Nil
  then show ?case by simp
next
  case (Cons x xs)
  then have "sorted (cumsum_from (acc + x) xs)" by simp
  moreover have "\<forall>c \<in> set (cumsum_from (acc + x) xs). acc + x \<le> c"
    using cumsum_from_lower[of xs _ "acc + x"] Cons.prems by auto
  ultimately show ?case by simp
qed

text \<open>
  The predicate \<open>annotated_track\<close> holds of every frame that the loader returns, for a
  geodesic distance that is never negative.
\<close>

lemma prepare_gpx_dataframe_annotated:
  assumes "\<forall>p q. 0 \<le> geodesic_meters p q"
    and "prepare_gpx_dataframe geodesic_meters tracks = Inr (df, title)"
  shows "annotated_track df"
proof -
  define points where "points = concat (map (\<lambda>track. concat (segments track)) tracks)"
  define pts where "pts = sort_key pt_time points"
  define distances where
    "distances = 0 # map (\<lambda>i. geodesic_meters
                                  (pt_latitude (pts ! (i - 1)), pt_longitude (pts ! (i - 1)))
                                  (pt_latitude (pts ! i), pt_longitude (pts ! i)))
                       [1..<length pts]"
  define cumulative where "cumulative = cumsum_from 0 distances"
  from assms(2) have ne: "points \<noteq> []"
    by (auto simp: prepare_gpx_dataframe_def Let_def points_def split: if_splits)
  then have n: "0 < length pts" by (simp add: pts_def)
  then have pne: "pts \<noteq> []" by auto
  from assms(2) ne have rows: "rows df = map (\<lambda>i. \<lparr>time = pt_time (pts ! i),
                                          latitude = pt_latitude (pts ! i),
                                          longitude = pt_longitude (pts ! i),
                                          elevation = pt_elevation (pts ! i),
                                          segment_meters = distances ! i,
                                          cumulative_meters = cumulative ! i,
                                          elapsed_time = pt_time (pts ! i) - pt_time (hd pts)\<rparr>)
                                [0..<length pts]"
    by (auto simp: prepare_gpx_dataframe_def Let_def points_def pts_def distances_def
          cumulative_def split: if_splits)
  have rne: "rows df \<noteq> []" using n by (simp add: rows)
  have len: "length cumulative = length pts"
    using n by (simp add: cumulative_def length_cumsum_from distances_def)
  have "map cumulative_meters (rows df) = map (\<lambda>i. cumulative ! i) [0..<length cumulative]"
    by (simp add: rows len comp_def)
  also have "\<dots> = cumulative" by (rule map_nth)
  finally have cm: "map cumulative_meters (rows df) = cumulative" .
  have "cumulative_meters (hd (rows df)) = hd (map cumulative_meters (rows df))"
    using rne by (rule hd_map[symmetric])
  also have "\<dots> = 0" unfolding cm by (simp add: cumulative_def distances_def)
  finally have c0: "cumulative_meters (hd (rows df)) = 0" .
  have "\<forall>x \<in> set distances. 0 \<le> x" using assms(1) by (auto simp: distances_def)
  then have sc: "sorted (map cumulative_meters (rows df))"
    unfolding cm cumulative_def by (rule sorted_cumsum_from)
  have "map elapsed_time (rows df) = map (\<lambda>t. t - pt_time (hd pts)) (map (\<lambda>i. map pt_time pts ! i) [0..<length (map pt_time pts)])"
    by (simp add: rows comp_def)
  also have "\<dots> = map (\<lambda>t. t - pt_time (hd pts)) (map pt_time pts)"
    by (simp only: map_nth)
  finally have em: "map elapsed_time (rows df) = map (\<lambda>t. t - pt_time (hd pts)) (map pt_time pts)" .
  have "elapsed_time (hd (rows df)) = hd (map elapsed_time (rows df))"
    using rne by (rule hd_map[symmetric])
  also have "\<dots> = 0" unfolding em using pne by (simp add: hd_map)
  finally have e0: "elapsed_time (hd (rows df)) = 0" .
  have "sorted (map pt_time pts)" by (simp add: pts_def)
  then have se: "sorted (map elapsed_time (rows df))"
    unfolding em by (rule sorted_map_mono) (simp add: mono_on_def)
  from rne c0 sc e0 se show ?thesis by (simp add: annotated_track_def)
qed

end
